theory Spec2Isabelle
  imports Complex_Main "HOL-Library.Word"
begin

section \<open>Arithmetic model\<close>

text \<open>
  The library computes on IEEE \<^verbatim>\<open>double\<close> and \<^verbatim>\<open>long double\<close> values. A value is
  modelled as a finite real number or one of the three special values. Finite values are
  exact reals: rounding to the significand is not modelled, and zero carries no sign.
  What is modelled is every point where a special value is created or consumed:
  division by zero, \<open>0/0\<close>, \<open>\<infinity> - \<infinity>\<close>, \<open>0 \<sqdot> \<infinity>\<close>, comparisons with NaN (always false), and
  overflow of a \<^verbatim>\<open>double\<close> result (\<open>dbl\<close>). The operators \<open>+ - * /\<close> on \<open>fp\<close> are the
  exact ones, which is how \<^verbatim>\<open>long double\<close> intermediates are read (extended range:
  no overflow of a \<^verbatim>\<open>long double\<close> is modelled); an operation carried out in \<^verbatim>\<open>double\<close>
  is written \<open>dbl (a + b)\<close>. Where a function is studied on finite arguments only (the
  Pochhammer argument, the first argument of \<open>gamma_star\<close>), the argument is a real.
\<close>

datatype fp = Fin real | PInf | NInf | NaN

instantiation fp :: "{zero, one, plus, uminus, minus, times, inverse, abs, ord}"
begin

definition zero_fp :: fp where "zero_fp = Fin 0"

definition one_fp :: fp where "one_fp = Fin 1"

fun plus_fp :: "fp \<Rightarrow> fp \<Rightarrow> fp" where
  "plus_fp (Fin a) (Fin b) = Fin (a + b)"
| "plus_fp (Fin a) PInf = PInf"
| "plus_fp (Fin a) NInf = NInf"
| "plus_fp PInf (Fin b) = PInf"
| "plus_fp PInf PInf = PInf"
| "plus_fp PInf NInf = NaN"
| "plus_fp NInf (Fin b) = NInf"
| "plus_fp NInf NInf = NInf"
| "plus_fp NInf PInf = NaN"
| "plus_fp NaN y = NaN"
| "plus_fp x NaN = NaN"

fun uminus_fp :: "fp \<Rightarrow> fp" where
  "uminus_fp (Fin a) = Fin (- a)"
| "uminus_fp PInf = NInf"
| "uminus_fp NInf = PInf"
| "uminus_fp NaN = NaN"

definition minus_fp :: "fp \<Rightarrow> fp \<Rightarrow> fp" where
  "minus_fp x y = x + (- y)"

fun times_fp :: "fp \<Rightarrow> fp \<Rightarrow> fp" where
  "times_fp (Fin a) (Fin b) = Fin (a * b)"
| "times_fp (Fin a) PInf = (if a = 0 then NaN else if 0 < a then PInf else NInf)"
| "times_fp (Fin a) NInf = (if a = 0 then NaN else if 0 < a then NInf else PInf)"
| "times_fp PInf (Fin b) = (if b = 0 then NaN else if 0 < b then PInf else NInf)"
| "times_fp NInf (Fin b) = (if b = 0 then NaN else if 0 < b then NInf else PInf)"
| "times_fp PInf PInf = PInf"
| "times_fp PInf NInf = NInf"
| "times_fp NInf PInf = NInf"
| "times_fp NInf NInf = PInf"
| "times_fp NaN y = NaN"
| "times_fp x NaN = NaN"

fun divide_fp :: "fp \<Rightarrow> fp \<Rightarrow> fp" where
  "divide_fp (Fin a) (Fin b) =
     (if b \<noteq> 0 then Fin (a / b)
      else if a = 0 then NaN else if 0 < a then PInf else NInf)"
| "divide_fp (Fin a) PInf = Fin 0"
| "divide_fp (Fin a) NInf = Fin 0"
| "divide_fp PInf (Fin b) = (if 0 \<le> b then PInf else NInf)"
| "divide_fp NInf (Fin b) = (if 0 \<le> b then NInf else PInf)"
| "divide_fp PInf PInf = NaN"
| "divide_fp PInf NInf = NaN"
| "divide_fp NInf PInf = NaN"
| "divide_fp NInf NInf = NaN"
| "divide_fp NaN y = NaN"
| "divide_fp x NaN = NaN"

definition inverse_fp :: "fp \<Rightarrow> fp" where
  "inverse_fp x = divide (Fin 1) x"

fun abs_fp :: "fp \<Rightarrow> fp" where
  "abs_fp (Fin a) = Fin \<bar>a\<bar>"
| "abs_fp PInf = PInf"
| "abs_fp NInf = PInf"
| "abs_fp NaN = NaN"

fun less_fp :: "fp \<Rightarrow> fp \<Rightarrow> bool" where
  "less_fp (Fin a) (Fin b) = (a < b)"
| "less_fp (Fin a) PInf = True"
| "less_fp NInf (Fin b) = True"
| "less_fp NInf PInf = True"
| "less_fp x y = False"

fun less_eq_fp :: "fp \<Rightarrow> fp \<Rightarrow> bool" where
  "less_eq_fp (Fin a) (Fin b) = (a \<le> b)"
| "less_eq_fp (Fin a) PInf = True"
| "less_eq_fp NInf (Fin b) = True"
| "less_eq_fp NInf PInf = True"
| "less_eq_fp NInf NInf = True"
| "less_eq_fp PInf PInf = True"
| "less_eq_fp x y = False"

instance ..

end

text \<open>
  Narrowing to \<^verbatim>\<open>double\<close>: a real whose magnitude reaches \<open>2^1024 - 2^970\<close> (half an ulp
  above the largest double) rounds to an infinity; every other value is kept.
\<close>

definition DBL_OVERFLOW :: real where
  "DBL_OVERFLOW = 2 ^ 1024 - 2 ^ 970"

definition DBL_MAX :: real where
  "DBL_MAX = 2 ^ 1024 - 2 ^ 971"

fun dbl :: "fp \<Rightarrow> fp" where
  "dbl (Fin r) =
     (if DBL_OVERFLOW \<le> r then PInf else if r \<le> - DBL_OVERFLOW then NInf else Fin r)"
| "dbl x = x"

text \<open>\<^verbatim>\<open>std::ldexp ( x , e )\<close>: exact scaling by a power of two.\<close>

definition ldexp_real :: "real \<Rightarrow> int \<Rightarrow> real" where
  "ldexp_real r e = (if 0 \<le> e then r * 2 ^ nat e else r / 2 ^ nat (- e))"

fun ldexp :: "fp \<Rightarrow> int \<Rightarrow> fp" where
  "ldexp (Fin r) e = Fin (ldexp_real r e)"
| "ldexp x e = x"

text \<open>\<^verbatim>\<open>std::max ( a , b )\<close> is \<^verbatim>\<open>(a < b) ? b : a\<close>.\<close>

definition std_max :: "fp \<Rightarrow> fp \<Rightarrow> fp" where
  "std_max a b = (if a < b then b else a)"


text \<open>
  \<^verbatim>\<open>std::exp\<close>, \<^verbatim>\<open>std::expm1\<close>, \<^verbatim>\<open>std::sqrt\<close> and \<^verbatim>\<open>std::pow\<close> with a non-negative
  integer exponent (\<open>pow (x, 0) = 1\<close> for every \<open>x\<close>, NaN included).
\<close>

fun std_exp :: "fp \<Rightarrow> fp" where
  "std_exp (Fin r) = Fin (exp r)"
| "std_exp PInf = PInf"
| "std_exp NInf = Fin 0"
| "std_exp NaN = NaN"

fun std_expm1 :: "fp \<Rightarrow> fp" where
  "std_expm1 (Fin r) = Fin (exp r - 1)"
| "std_expm1 PInf = PInf"
| "std_expm1 NInf = Fin (- 1)"
| "std_expm1 NaN = NaN"

fun std_sqrt :: "fp \<Rightarrow> fp" where
  "std_sqrt (Fin r) = (if r < 0 then NaN else Fin (sqrt r))"
| "std_sqrt PInf = PInf"
| "std_sqrt NInf = NaN"
| "std_sqrt NaN = NaN"


text \<open>Operations carried out in \<^verbatim>\<open>double\<close>.\<close>

definition dadd :: "fp \<Rightarrow> fp \<Rightarrow> fp" where
  "dadd a b = dbl (a + b)"

definition dsub :: "fp \<Rightarrow> fp \<Rightarrow> fp" where
  "dsub a b = dbl (a - b)"

definition dmul :: "fp \<Rightarrow> fp \<Rightarrow> fp" where
  "dmul a b = dbl (a * b)"

definition ddiv :: "fp \<Rightarrow> fp \<Rightarrow> fp" where
  "ddiv a b = dbl (a / b)"

section \<open>Constants of the translation unit\<close>

text \<open>
  \<^verbatim>\<open>s_infinity = 0.9 * std::numeric_limits<double>::max ()\<close>,
  \<^verbatim>\<open>s_imax = -32\<close>, \<^verbatim>\<open>s_large = std::pow ( 2.0 , -s_imax )\<close>,
  \<^verbatim>\<open>s_epsilon = min ( DBL_EPSILON , 10000 * LDBL_EPSILON )\<close> with a 64-bit
  \<^verbatim>\<open>long double\<close> significand.
\<close>

definition s_infinity :: real where
  "s_infinity = 9 / 10 * DBL_MAX"

definition s_imax :: int where
  "s_imax = - 32"

definition s_large :: real where
  "s_large = 2 ^ nat (- s_imax)"

definition s_epsilon :: real where
  "s_epsilon = min (1 / 2 ^ 52) (10000 * (1 / 2 ^ 63))"

text \<open>
  Functions the translation unit calls but does not define. \<^verbatim>\<open>Ostap::Math::Zero<double>\<close>
  (\<^verbatim>\<open>s_zero\<close>), \<^verbatim>\<open>Ostap::Math::isint\<close> and \<^verbatim>\<open>Ostap::Math::round\<close> come from
  \<^verbatim>\<open>Ostap/Math.h\<close>, the closed forms \<^verbatim>\<open>Pochhammer_<N>::evaluate\<close> from another header,
  \<^verbatim>\<open>std::lgamma\<close> and \<^verbatim>\<open>std::tgamma\<close> from the C library. They are parameters of the
  model; a theorem states what it needs of them.
\<close>

record mathlib =
  s_zero :: "fp \<Rightarrow> bool"
  isint :: "real \<Rightarrow> bool"
  math_round :: "real \<Rightarrow> int"
  Pochhammer_evaluate :: "nat \<Rightarrow> real \<Rightarrow> real"
  lgamma :: "real \<Rightarrow> real"
  tgamma :: "fp \<Rightarrow> fp"

section \<open>Continued fractions\<close>



fun simple_cf_b_loop :: "fp list \<Rightarrow> fp \<Rightarrow> fp \<Rightarrow> fp \<Rightarrow> fp \<Rightarrow> fp" where
  "simple_cf_b_loop [] hm1 km1 h0 k0 = h0 / k0"
| "simple_cf_b_loop (b # bs) hm1 km1 h0 k0 =
     (let hp1 = h0 + b * hm1; kp1 = k0 + b * km1 in
      if Fin s_large < \<bar>hp1\<bar> \<or> Fin s_large < \<bar>kp1\<bar>
      then simple_cf_b_loop bs (ldexp h0 s_imax) (ldexp k0 s_imax)
                               (ldexp hp1 s_imax) (ldexp kp1 s_imax)
      else simple_cf_b_loop bs h0 k0 hp1 kp1)"

definition simple_cf_b :: "fp list \<Rightarrow> fp" where
  "simple_cf_b bs = (if bs = [] then 0 else simple_cf_b_loop bs 1 0 0 1)"

fun simple_cf_ab_loop :: "fp list \<Rightarrow> fp list \<Rightarrow> fp \<Rightarrow> fp \<Rightarrow> fp \<Rightarrow> fp \<Rightarrow> fp" where
  "simple_cf_ab_loop (a # as) (b # bs) hm1 km1 h0 k0 =
     (let hp1 = b * h0 + a * hm1; kp1 = b * k0 + a * km1 in
      if Fin s_large < \<bar>hp1\<bar> \<or> Fin s_large < \<bar>kp1\<bar>
      then simple_cf_ab_loop as bs (ldexp h0 s_imax) (ldexp k0 s_imax)
                                   (ldexp hp1 s_imax) (ldexp kp1 s_imax)
      else simple_cf_ab_loop as bs h0 k0 hp1 kp1)"
| "simple_cf_ab_loop as bs hm1 km1 h0 k0 = h0 / k0"

definition simple_cf_ab :: "fp list \<Rightarrow> fp list \<Rightarrow> fp" where
  "simple_cf_ab as bs =
     (if as = [] \<or> bs = [] then 0 else simple_cf_ab_loop as bs 1 0 0 1)"


definition continued_fraction_b :: "mathlib \<Rightarrow> fp list \<Rightarrow> fp" where
  "continued_fraction_b E b =
     (case b of
        [] \<Rightarrow> 0
      | b0 # _ \<Rightarrow> if s_zero E b0 then 0 else dbl (simple_cf_b b))"

definition continued_fraction :: "fp list \<Rightarrow> fp list \<Rightarrow> fp" where
  "continued_fraction a b =
     (if length a = length b then dbl (simple_cf_ab a b)
      else if length a + 1 = length b then dbl (hd b + simple_cf_ab a (tl b))
      else NaN)"

section \<open>Exponential partial sums and reduced exponents\<close>




text \<open>\<^verbatim>\<open>GSL_LOG_DBL_MIN\<close> and \<^verbatim>\<open>GSL_LOG_DBL_MAX\<close> of \<^verbatim>\<open>gsl/gsl_machine.h\<close>.\<close>

definition GSL_LOG_DBL_MIN :: real where
  "GSL_LOG_DBL_MIN = - 70839641853226408 / 10 ^ 14"

definition GSL_LOG_DBL_MAX :: real where
  "GSL_LOG_DBL_MAX = 70978271289338397 / 10 ^ 14"

definition exprel :: "fp \<Rightarrow> fp" where
  "exprel x =
     (let y = x in
      if x < Fin GSL_LOG_DBL_MIN then dbl (Fin (- 1) / y)
      else if Fin GSL_LOG_DBL_MAX < x then dbl (Fin s_infinity)
      else if \<bar>x\<bar> < 1 then dbl (std_expm1 y / y)
      else dbl ((std_exp y - 1) / y))"

text \<open>
  \<open>exp_rel_N_impl\<close> is \<^verbatim>\<open>_exp_rel_N_\<close>: the continued fraction of the regular part, at most \<open>100000 - 1\<close>
  iterations, left early when the convergence test (every fifth iteration) succeeds.
\<close>

function exp_rel_N_loop :: "fp \<Rightarrow> nat \<Rightarrow> nat \<Rightarrow> fp \<Rightarrow> fp \<Rightarrow> fp \<Rightarrow> fp \<Rightarrow> fp" where
  "exp_rel_N_loop x N n hm1 km1 h0 k0 =
     (if n \<le> 100000 then
        (let an = (if n mod 2 = 0 then x * Fin (real n) / Fin 2
                   else (- x) * Fin (real (N + (n - 1) div 2)));
             bn = Fin (real (n + N));
             hp1 = bn * h0 + an * hm1;
             kp1 = bn * k0 + an * km1;
             big = (Fin s_large < \<bar>hp1\<bar> \<or> Fin s_large < \<bar>kp1\<bar>);
             hm1' = (if big then ldexp h0 s_imax else h0);
             km1' = (if big then ldexp k0 s_imax else k0);
             h0' = (if big then ldexp hp1 s_imax else hp1);
             k0' = (if big then ldexp kp1 s_imax else kp1)
         in if n mod 5 = 0 \<and> \<bar>(hm1' / km1') / (h0' / k0') - 1\<bar> \<le> Fin (2 * s_epsilon)
            then h0' / k0'
            else exp_rel_N_loop x N (Suc n) hm1' km1' h0' k0')
      else h0 / k0)"
  by pat_completeness auto
termination
  by (relation "measure (\<lambda>(x, N, n, hm1, km1, h0, k0). 100001 - n)") auto

definition exp_rel_N_impl :: "fp \<Rightarrow> nat \<Rightarrow> fp" where
  "exp_rel_N_impl x N =
     (let result = exp_rel_N_loop x N 2 1 0 0 1
      in 1 / (1 - x / (Fin (real (N + 1)) + result)))"

definition exp_rel_N :: "mathlib \<Rightarrow> fp \<Rightarrow> 16 word \<Rightarrow> fp" where
  "exp_rel_N E x N =
     (let y = x in
      if N = 0 then dbl (std_exp y)
      else if N = 1 then exprel x
      else if s_zero E x then 1
      else dbl (exp_rel_N_impl y (unat N)))"

section \<open>Regularized incomplete gamma function\<close>








section \<open>Two-body phase space\<close>

definition triangle :: "fp \<Rightarrow> fp \<Rightarrow> fp \<Rightarrow> fp" where
  "triangle a b c =
     dsub (dsub (dsub (dadd (dadd (dmul a a) (dmul b b)) (dmul c c))
                      (dmul (dmul (Fin 2) a) b))
                (dmul (dmul (Fin 2) b) c))
          (dmul (dmul (Fin 2) a) c)"

definition M_PI :: fp where
  "M_PI = Fin pi"

definition s_inv8pi :: fp where
  "s_inv8pi = ddiv 1 (dmul (Fin 8) M_PI)"

definition phasespace2 :: "fp \<Rightarrow> fp \<Rightarrow> fp \<Rightarrow> fp" where
  "phasespace2 x m1 m2 =
     (let xm1 = std_max 0 m1; xm2 = std_max 0 m2 in
      if x \<le> dadd xm1 xm2 then 0
      else (let msq = dmul x x;
                lam = triangle msq (dmul xm1 xm1) (dmul xm2 xm2)
            in if 0 < lam then ddiv (dmul s_inv8pi (std_sqrt lam)) msq else 0))"

section \<open>Pochhammer symbol\<close>

text \<open>
  \<open>pochhammer_aux\<close> is \<^verbatim>\<open>_pochhammer_\<close> and \<open>pochhammer_disp\<close> is \<^verbatim>\<open>__pochhammer__\<close>, both in
  \<^verbatim>\<open>long double\<close>. \<open>N\<close> is an \<^verbatim>\<open>unsigned short\<close>; it is promoted before every operation
  on it, so none wraps. \<^verbatim>\<open>Pochhammer_<N>::evaluate\<close> serves \<open>2 \<le> N \<le> 16\<close>.
\<close>

function pochhammer_aux :: "mathlib \<Rightarrow> real \<Rightarrow> nat \<Rightarrow> real" where
  "pochhammer_aux E x N =
     (if N = 0 then 1
      else if N = 1 then x
      else if N \<le> 16 then Pochhammer_evaluate E N x
      else if s_zero E (dbl (Fin x)) then 0
      else if x < 1 / 2 - real N
      then pochhammer_aux E (\<bar>x\<bar> - real N + 1) N * (if odd N then - 1 else 1)
      else (let s_delta = 1 / 10 ^ 8;
                use_dimidation =
                  ((1 - real N - s_delta < x \<and> x < s_delta) \<and>
                   \<bar>x - real_of_int (math_round E x)\<bar> < s_delta)
            in if N \<le> 96 \<or> use_dimidation
               then (let K2 = N div 2; K1 = (if odd N then K2 + 1 else K2)
                     in ldexp_real (pochhammer_aux E (ldexp_real x (- 1)) K1) (int K1) *
                        ldexp_real (pochhammer_aux E (ldexp_real (x + 1) (- 1)) K2) (int K2))
               else exp (lgamma E (x + real N) - lgamma E x)))"
  by pat_completeness auto
termination
  by (relation "measures [\<lambda>(E, x, N). N, \<lambda>(E, x, N). if x < 1 / 2 - real N then 1 else 0]")
    auto

definition pochhammer_disp :: "mathlib \<Rightarrow> real \<Rightarrow> nat \<Rightarrow> real" where
  "pochhammer_disp E x N =
     (if N = 0 then 1
      else if N = 1 then x
      else if s_zero E (dbl (Fin x)) then 0
      else if 1 / 2 - real N < x then pochhammer_aux E x N
      else pochhammer_aux E (\<bar>x\<bar> - real N + 1) N * (if odd N then - 1 else 1))"

definition pochhammer :: "mathlib \<Rightarrow> real \<Rightarrow> nat \<Rightarrow> fp" where
  "pochhammer E x n = dbl (Fin (pochhammer_disp E x n))"

definition rising_factorial :: "mathlib \<Rightarrow> real \<Rightarrow> nat \<Rightarrow> fp" where
  "rising_factorial E x n = dbl (Fin (pochhammer_disp E x n))"

section \<open>Reference recurrences\<close>








text \<open>
  An instance of the library parameters, used to run the model on concrete inputs: an
  exact zero test, rounding to the nearest integer (halves away from zero) and the
  rising-factorial products as closed forms. Its \<open>lgamma\<close> and \<open>tgamma\<close> are placeholders
  that say nothing about the C library's functions.
\<close>

definition sample_lib :: mathlib where
  "sample_lib =
     \<lparr>s_zero = (\<lambda>v. v = Fin 0),
      isint = (\<lambda>a. a = real_of_int \<lfloor>a\<rfloor>),
      math_round = (\<lambda>a. if 0 \<le> a then \<lfloor>a + 1 / 2\<rfloor> else \<lceil>a - 1 / 2\<rceil>),
      Pochhammer_evaluate = (\<lambda>N x. \<Prod>k<N. x + real k),
      lgamma = (\<lambda>x. 0),
      tgamma = (\<lambda>x. NaN)\<rparr>"


section \<open>Arithmetic facts\<close>

declare zero_fp_def [simp] one_fp_def [simp] minus_fp_def [simp]


lemma DBL_OVERFLOW_gt: "1000 < DBL_OVERFLOW"
  by (simp add: DBL_OVERFLOW_def)

lemma dbl_Fin_id: "- DBL_OVERFLOW < r \<Longrightarrow> r < DBL_OVERFLOW \<Longrightarrow> dbl (Fin r) = Fin r"
  by simp








section \<open>Continued fractions: rescaling\<close>








section \<open>Continued fractions: entry points\<close>



text \<open>
  C2, as stated, makes NaN the mark of mismatched lengths. With matched lengths the
  quotient \<open>h0 / k0\<close> can still be \<open>0/0\<close>: for \<open>a = [0]\<close>, \<open>b = [0]\<close> the loop computes
  \<open>hp1 = 0 \<sqdot> 0 + 0 \<sqdot> 1\<close> and \<open>kp1 = 0 \<sqdot> 1 + 0 \<sqdot> 0\<close>.
\<close>

theorem continued_fraction_nan_matched:
  "continued_fraction [Fin 0] [Fin 0] = NaN \<and> length [Fin 0] = length [Fin 0]"
  by (simp add: continued_fraction_def simple_cf_ab_def s_large_def s_imax_def)

text \<open>
  C2, amended. When the two sequences have mismatched lengths (neither
  \<open>length a = length b\<close> nor \<open>length b = length a + 1\<close>), \<open>continued_fraction\<close> returns NaN;
  the error is carried by the return value alone (the function has no other outcome).
  NaN is not returned only then.
\<close>

theorem continued_fraction_mismatch:
  assumes "length a \<noteq> length b" and "length b \<noteq> length a + 1"
  shows "continued_fraction a b = NaN"
  using assms by (auto simp: continued_fraction_def)

theorem continued_fraction_mismatch_witness:
  "length [Fin 1, Fin 2] \<noteq> length ([] :: fp list) \<and>
   length ([] :: fp list) \<noteq> length [Fin 1, Fin 2] + 1 \<and>
   continued_fraction [Fin 1, Fin 2] [] = NaN"
  using continued_fraction_mismatch [of "[Fin 1, Fin 2]" "[]"] by simp

text \<open>
  C10. \<open>continued_fraction_b\<close> returns 0 when the coefficient list is empty or when the
  library's zero predicate holds of its first coefficient, whatever the remaining
  coefficients are.
\<close>

theorem continued_fraction_b_zero:
  assumes "b = [] \<or> s_zero E (hd b)"
  shows "continued_fraction_b E b = Fin 0"
  using assms by (cases b) (auto simp: continued_fraction_b_def)

theorem continued_fraction_b_zero_witness:
  "continued_fraction_b sample_lib [Fin 0, Fin 7, NaN] = Fin 0"
  by (rule continued_fraction_b_zero) (simp add: sample_lib_def)

section \<open>Exponential partial sums\<close>












section \<open>Reduced exponents\<close>

text \<open>
  C3. At \<open>x = 0\<close> neither range test of \<open>exprel\<close> fires, \<open>1 > \<bar>x\<bar>\<close> holds, and the
  function returns \<^verbatim>\<open>std::expm1 ( y ) / y\<close>, which is \<open>0/0\<close>: the result is NaN, not 1.
\<close>

theorem exprel_at_zero: "exprel (Fin 0) = NaN"
  by (simp add: exprel_def GSL_LOG_DBL_MIN_def GSL_LOG_DBL_MAX_def)

text \<open>
  Away from zero and inside \<open>[GSL_LOG_DBL_MIN, GSL_LOG_DBL_MAX]\<close> both branches return
  \<open>(exp x - 1) / x\<close>.
\<close>

lemma exprel_in_range:
  assumes "x \<noteq> 0" and "GSL_LOG_DBL_MIN \<le> x" and "x \<le> GSL_LOG_DBL_MAX"
  shows "exprel (Fin x) = dbl (Fin ((exp x - 1) / x))"
  using assms by (simp add: exprel_def Let_def del: dbl.simps)

text \<open>
  C4. \<open>exp_rel_N x 0\<close> is \<open>exp x\<close> and \<open>exp_rel_N x 1\<close> is \<open>exprel x\<close> for every \<open>x\<close>.
  The test \<^verbatim>\<open>s_zero ( x ) ? 1\<close> comes after the case \<open>N = 1\<close>, so \<open>exp_rel_N 0 1\<close> is
  \<open>exprel 0\<close>, which is NaN and not 1.
\<close>

theorem exp_rel_N_reductions:
  "exp_rel_N E x 0 = dbl (std_exp x) \<and> exp_rel_N E x 1 = exprel x \<and>
   exp_rel_N E (Fin 0) 1 = NaN"
  by (simp add: exp_rel_N_def exprel_def GSL_LOG_DBL_MIN_def GSL_LOG_DBL_MAX_def)

section \<open>Regularized incomplete gamma function: closed form\<close>







section \<open>Two-body phase space: threshold\<close>

lemma phasespace2_below:
  "x \<le> dadd (std_max 0 m1) (std_max 0 m2) \<Longrightarrow> phasespace2 x m1 m2 = Fin 0"
  by (simp add: phasespace2_def Let_def)

lemma dadd_Fin: "\<bar>a + b\<bar> < DBL_OVERFLOW \<Longrightarrow> dadd (Fin a) (Fin b) = Fin (a + b)"
  unfolding dadd_def by (simp add: abs_if split: if_splits)

lemma dsub_Fin: "\<bar>a - b\<bar> < DBL_OVERFLOW \<Longrightarrow> dsub (Fin a) (Fin b) = Fin (a - b)"
  unfolding dsub_def by (simp add: abs_if split: if_splits)

lemma dmul_Fin: "\<bar>a * b\<bar> < DBL_OVERFLOW \<Longrightarrow> dmul (Fin a) (Fin b) = Fin (a * b)"
  unfolding dmul_def by (simp add: abs_if split: if_splits)

lemma ddiv_Fin:
  "b \<noteq> 0 \<Longrightarrow> \<bar>a / b\<bar> < DBL_OVERFLOW \<Longrightarrow> ddiv (Fin a) (Fin b) = Fin (a / b)"
  unfolding ddiv_def by (simp add: abs_if split: if_splits)

lemma triangle_9_1_1: "triangle (Fin 9) (Fin 1) (Fin 1) = Fin 45"
  using DBL_OVERFLOW_gt by (simp add: triangle_def dadd_Fin dsub_Fin dmul_Fin)

lemma inv8pi_bounds: "0 < 1 / (8 * pi)" "1 / (8 * pi) < 1"
proof -
  have "1 < 8 * pi" using pi_ge_two by linarith
  then show "1 / (8 * pi) < 1" by simp
qed simp

lemma s_inv8pi_value: "s_inv8pi = Fin (1 / (8 * pi))"
proof -
  have "\<bar>8 * pi\<bar> < DBL_OVERFLOW"
    using pi_less_4 pi_ge_two DBL_OVERFLOW_gt by (simp add: abs_if)
  then have m: "dmul (Fin 8) (Fin pi) = Fin (8 * pi)" by (rule dmul_Fin)
  have "\<bar>1 / (8 * pi)\<bar> < DBL_OVERFLOW"
    using inv8pi_bounds DBL_OVERFLOW_gt by (simp only: abs_of_pos)
  moreover have "8 * pi \<noteq> 0" by simp
  ultimately have "ddiv (Fin 1) (Fin (8 * pi)) = Fin (1 / (8 * pi))"
    by (intro ddiv_Fin)
  then show ?thesis by (simp only: s_inv8pi_def M_PI_def m one_fp_def)
qed

lemma phase_value_bounds:
  defines "v \<equiv> 1 / (8 * pi) * sqrt 45"
  shows "0 < v" "v < 7" "0 < v / 9" "v / 9 < 1"
proof -
  have s: "sqrt 45 < 7" by (rule real_less_lsqrt) simp_all
  have p: "0 < sqrt 45" by simp
  show "0 < v" unfolding v_def using inv8pi_bounds(1) p by (rule mult_pos_pos)
  have "1 / (8 * pi) * sqrt 45 < 1 * 7"
    using inv8pi_bounds s p by (intro mult_strict_mono) auto
  then show "v < 7" by (simp only: v_def mult_1)
  from \<open>0 < v\<close> show "0 < v / 9" by simp
  from \<open>v < 7\<close> show "v / 9 < 1" by simp
qed

lemma phasespace2_3_1_1:
  "phasespace2 (Fin 3) (Fin 1) (Fin 1) = Fin (1 / (8 * pi) * sqrt 45 / 9)"
proof -
  have b1: "\<bar>1 / (8 * pi) * sqrt 45\<bar> < DBL_OVERFLOW"
    using phase_value_bounds(1,2) DBL_OVERFLOW_gt by (simp only: abs_of_pos)
  have b2: "\<bar>1 / (8 * pi) * sqrt 45 / 9\<bar> < DBL_OVERFLOW"
    using phase_value_bounds(3,4) DBL_OVERFLOW_gt by (simp only: abs_of_pos)
  have msq: "dmul (Fin 3) (Fin 3) = Fin 9" "dmul (Fin 1) (Fin 1) = Fin 1"
    "dadd (Fin 1) (Fin 1) = Fin 2"
    using DBL_OVERFLOW_gt by (simp_all add: dmul_Fin dadd_Fin)
  have sq: "std_sqrt (Fin 45) = Fin (sqrt 45)" by simp
  have num: "dmul (Fin (1 / (8 * pi))) (Fin (sqrt 45)) = Fin (1 / (8 * pi) * sqrt 45)"
    using b1 by (rule dmul_Fin)
  have quo: "ddiv (Fin (1 / (8 * pi) * sqrt 45)) (Fin 9) = Fin (1 / (8 * pi) * sqrt 45 / 9)"
    using b2 by (intro ddiv_Fin) simp_all
  have "phasespace2 (Fin 3) (Fin 1) (Fin 1) =
        ddiv (dmul s_inv8pi (std_sqrt (Fin 45))) (Fin 9)"
    by (simp add: phasespace2_def std_max_def Let_def msq triangle_9_1_1)
  also have "\<dots> = Fin (1 / (8 * pi) * sqrt 45 / 9)"
    by (simp only: s_inv8pi_value sq num quo)
  finally show ?thesis .
qed

text \<open>
  C9. \<open>phasespace2 x m1 m2\<close> is 0 whenever \<open>x \<le> m1 + m2\<close> with both masses first clamped
  to be non-negative; in particular \<open>phasespace2 1.5 1 1 = 0\<close>, while
  \<open>phasespace2 3 1 1\<close> is a positive finite number.
\<close>

theorem phasespace2_threshold:
  "(x \<le> dadd (std_max 0 m1) (std_max 0 m2) \<longrightarrow> phasespace2 x m1 m2 = Fin 0) \<and>
   phasespace2 (Fin (3 / 2)) (Fin 1) (Fin 1) = Fin 0 \<and>
   (\<exists>r. 0 < r \<and> r < DBL_MAX \<and> phasespace2 (Fin 3) (Fin 1) (Fin 1) = Fin r)"
proof -
  have low: "phasespace2 (Fin (3 / 2)) (Fin 1) (Fin 1) = Fin 0"
    using DBL_OVERFLOW_gt by (intro phasespace2_below) (simp add: std_max_def dadd_Fin)
  have "1 < DBL_MAX" by (simp add: DBL_MAX_def)
  then have "1 / (8 * pi) * sqrt 45 / 9 < DBL_MAX"
    using phase_value_bounds(4) by linarith
  then have "\<exists>r. 0 < r \<and> r < DBL_MAX \<and> phasespace2 (Fin 3) (Fin 1) (Fin 1) = Fin r"
    using phase_value_bounds(3) phasespace2_3_1_1 by blast
  then show ?thesis
    using low phasespace2_below by blast
qed

theorem phasespace2_threshold_witness:
  "Fin 1 \<le> dadd (std_max 0 (Fin 2)) (std_max 0 (Fin (- 5))) \<and>
   phasespace2 (Fin 1) (Fin 2) (Fin (- 5)) = Fin 0"
proof -
  have h: "Fin 1 \<le> dadd (std_max 0 (Fin 2)) (std_max 0 (Fin (- 5)))"
    using DBL_OVERFLOW_gt by (simp add: std_max_def dadd_Fin)
  from phasespace2_threshold [of "Fin 1" "Fin 2" "Fin (- 5)"] h
  show ?thesis by blast
qed

section \<open>Pochhammer symbol: the product and the fallback\<close>

declare pochhammer_aux.simps [simp del]

lemma ldexp_real_half: "ldexp_real x (- 1) = x / 2"
  by (simp add: ldexp_real_def)

lemma ldexp_real_nat: "ldexp_real p (int K) = p * 2 ^ K"
  by (simp add: ldexp_real_def)

lemma prod_reflect:
  fixes x :: real
  shows "(\<Prod>k<N. - x - real N + 1 + real k) * (if odd N then - 1 else 1) = (\<Prod>k<N. x + real k)"
proof -
  have "(\<Prod>k<N. - x - real N + 1 + real k) = (\<Prod>k<N. - (x + real (N - Suc k)))"
    by (intro prod.cong) (auto simp: of_nat_diff algebra_simps)
  also have "\<dots> = (\<Prod>k<N. - (x + real k))"
    by (rule prod.nat_diff_reindex)
  also have "\<dots> = (\<Prod>k<N. (- 1) * (x + real k))" by simp
  also have "\<dots> = (- 1) ^ N * (\<Prod>k<N. x + real k)"
    by (simp only: prod.distrib prod_constant card_lessThan)
  finally have "(\<Prod>k<N. - x - real N + 1 + real k) = (- 1) ^ N * (\<Prod>k<N. x + real k)" .
  then show ?thesis by (cases "odd N") (simp_all add: uminus_power_if)
qed

lemma prod_split_even:
  fixes f :: "nat \<Rightarrow> real"
  shows "(\<Prod>k<2 * m. f k) = (\<Prod>j<m. f (2 * j)) * (\<Prod>j<m. f (2 * j + 1))"
proof (induction m)
  case 0
  show ?case by simp
next
  case (Suc m)
  have "(\<Prod>k<2 * Suc m. f k) = (\<Prod>k<2 * m. f k) * f (2 * m) * f (2 * m + 1)" by simp
  also have "\<dots> = ((\<Prod>j<m. f (2 * j)) * f (2 * m)) * ((\<Prod>j<m. f (2 * j + 1)) * f (2 * m + 1))"
    unfolding Suc.IH
    by (simp only: mult.assoc [where 'a = real] mult.commute [where 'a = real]
        mult.left_commute [where 'a = real])
  also have "\<dots> = (\<Prod>j<Suc m. f (2 * j)) * (\<Prod>j<Suc m. f (2 * j + 1))" by simp
  finally show ?case .
qed

lemma prod_split_odd:
  fixes f :: "nat \<Rightarrow> real"
  shows "(\<Prod>k<Suc (2 * m). f k) = (\<Prod>j<Suc m. f (2 * j)) * (\<Prod>j<m. f (2 * j + 1))"
proof -
  have "(\<Prod>k<Suc (2 * m). f k) = (\<Prod>k<2 * m. f k) * f (2 * m)" by simp
  also have "\<dots> = (\<Prod>j<m. f (2 * j)) * (\<Prod>j<m. f (2 * j + 1)) * f (2 * m)"
    by (simp only: prod_split_even)
  also have "\<dots> = ((\<Prod>j<m. f (2 * j)) * f (2 * m)) * (\<Prod>j<m. f (2 * j + 1))"
    by (simp only: mult.assoc [where 'a = real] mult.commute [where 'a = real]
        mult.left_commute [where 'a = real])
  also have "(\<Prod>j<m. f (2 * j)) * f (2 * m) = (\<Prod>j<Suc m. f (2 * j))" by simp
  finally show ?thesis .
qed

lemma prod_halves:
  fixes x :: real
  shows "(\<Prod>j<K. x / 2 + real j) * 2 ^ K = (\<Prod>j<K. x + real (2 * j))"
  by (induction K) (simp_all add: algebra_simps)

lemma prod_shift_one:
  fixes x :: real
  shows "(\<Prod>j<K. x + 1 + real (2 * j)) = (\<Prod>j<K. x + real (2 * j + 1))"
  by (intro prod.cong) simp_all

lemma dimidation:
  fixes x :: real and N :: nat
  defines "K2 \<equiv> N div 2"
  defines "K1 \<equiv> (if odd N then K2 + 1 else K2)"
  shows "ldexp_real (\<Prod>j<K1. ldexp_real x (- 1) + real j) (int K1) *
         ldexp_real (\<Prod>j<K2. ldexp_real (x + 1) (- 1) + real j) (int K2) =
         (\<Prod>k<N. x + real k)"
proof (cases "odd N")
  case True
  then have N: "N = Suc (2 * K2)" unfolding K2_def by presburger
  have K1: "K1 = Suc K2" using True by (simp add: K1_def)
  have "(\<Prod>k<N. x + real k) = (\<Prod>j<Suc K2. x + real (2 * j)) * (\<Prod>j<K2. x + real (2 * j + 1))"
    by (subst N) (rule prod_split_odd)
  then show ?thesis
    by (simp only: ldexp_real_half ldexp_real_nat prod_halves prod_shift_one K1)
next
  case False
  then have N: "N = 2 * K2" unfolding K2_def by presburger
  have K1: "K1 = K2" using False by (simp add: K1_def)
  have "(\<Prod>k<N. x + real k) = (\<Prod>j<K2. x + real (2 * j)) * (\<Prod>j<K2. x + real (2 * j + 1))"
    by (subst N) (rule prod_split_even)
  then show ?thesis
    by (simp only: ldexp_real_half ldexp_real_nat prod_halves prod_shift_one K1)
qed

lemma dbl_Fin_zero: "dbl (Fin v) = Fin 0 \<Longrightarrow> v = 0"
  by (simp split: if_splits)

lemma pochhammer_aux_product:
  assumes "\<And>n y. 2 \<le> n \<Longrightarrow> n \<le> 16 \<Longrightarrow> Pochhammer_evaluate E n y = (\<Prod>k<n. y + real k)"
    and "\<And>y. s_zero E y \<Longrightarrow> y = Fin 0"
    and "N \<le> 96"
  shows "pochhammer_aux E x N = (\<Prod>k<N. x + real k)"
  using assms
proof (induction E x N rule: pochhammer_aux.induct)
  case (1 E x N)
  note closed = "1.prems"(1) and zero = "1.prems"(2) and small = "1.prems"(3)
  consider (a) "N = 0" | (b) "N = 1" | (c) "2 \<le> N" "N \<le> 16"
    | (d) "16 < N" "s_zero E (dbl (Fin x))"
    | (e) "16 < N" "\<not> s_zero E (dbl (Fin x))" "x < 1 / 2 - real N"
    | (f) "16 < N" "\<not> s_zero E (dbl (Fin x))" "\<not> x < 1 / 2 - real N"
    by linarith
  then show ?case
  proof cases
    case a
    then show ?thesis by (simp add: pochhammer_aux.simps)
  next
    case b
    then show ?thesis by (simp add: pochhammer_aux.simps)
  next
    case c
    then show ?thesis by (simp add: pochhammer_aux.simps closed)
  next
    case d
    then have "x = 0" using zero dbl_Fin_zero by blast
    moreover have "(\<Prod>k<N. (0 :: real) + real k) = 0"
      using d(1) by (intro prod_zero) auto
    moreover have "pochhammer_aux E x N = 0"
      using d by (subst pochhammer_aux.simps) (simp del: dbl.simps)
    ultimately show ?thesis by simp
  next
    case e
    have N: "N \<noteq> 0" "N \<noteq> 1" "\<not> N \<le> 16" using e(1) by auto
    have ih: "pochhammer_aux E (\<bar>x\<bar> - real N + 1) N = (\<Prod>k<N. \<bar>x\<bar> - real N + 1 + real k)"
      using "1.IH"(1) [OF N e(2,3)] closed zero small by blast
    have "16 < real N" using e(1) by simp
    with e(3) have "x < 0" by linarith
    then have neg: "\<bar>x\<bar> = - x" by simp
    have "pochhammer_aux E x N =
          pochhammer_aux E (\<bar>x\<bar> - real N + 1) N * (if odd N then - 1 else 1)"
      using N e by (subst pochhammer_aux.simps) simp
    moreover have "pochhammer_aux E (- x - real N + 1) N = (\<Prod>k<N. - x - real N + 1 + real k)"
      using ih unfolding neg .
    ultimately show ?thesis
      by (simp only: neg prod_reflect)
  next
    case f
    have N: "N \<noteq> 0" "N \<noteq> 1" "\<not> N \<le> 16" using f(1) by auto
    define K2 where "K2 = N div 2"
    define K1 where "K1 = (if odd N then K2 + 1 else K2)"
    have K: "K1 \<le> 96" "K2 \<le> 96" using small by (auto simp: K1_def K2_def)
    have ih1: "pochhammer_aux E (ldexp_real x (- 1)) K1 = (\<Prod>j<K1. ldexp_real x (- 1) + real j)"
      using "1.IH"(2) [OF N f(2,3) refl refl _ K2_def K1_def] small closed zero K(1) by blast
    have ih2: "pochhammer_aux E (ldexp_real (x + 1) (- 1)) K2 =
               (\<Prod>j<K2. ldexp_real (x + 1) (- 1) + real j)"
      using "1.IH"(3) [OF N f(2,3) refl refl _ K2_def K1_def] small closed zero K(2) by blast
    have step: "pochhammer_aux E x N =
          ldexp_real (pochhammer_aux E (ldexp_real x (- 1)) K1) (int K1) *
          ldexp_real (pochhammer_aux E (ldexp_real (x + 1) (- 1)) K2) (int K2)"
      using N f small by (subst pochhammer_aux.simps) (simp add: Let_def K1_def K2_def)
    have dim: "ldexp_real (\<Prod>j<K1. ldexp_real x (- 1) + real j) (int K1) *
               ldexp_real (\<Prod>j<K2. ldexp_real (x + 1) (- 1) + real j) (int K2) =
               (\<Prod>k<N. x + real k)"
      unfolding K1_def K2_def by (rule dimidation)
    show ?thesis
      unfolding step ih1 ih2 by (rule dim)
  qed
qed


lemma pochhammer_disp_product:
  assumes closed: "\<And>n y. 2 \<le> n \<Longrightarrow> n \<le> 16 \<Longrightarrow> Pochhammer_evaluate E n y = (\<Prod>k<n. y + real k)"
    and zero: "\<And>y. s_zero E y \<Longrightarrow> y = Fin 0"
    and small: "N \<le> 96"
  shows "pochhammer_disp E x N = (\<Prod>k<N. x + real k)"
proof -
  note aux = pochhammer_aux_product [OF closed zero small]
  consider (a) "N = 0" | (b) "N = 1" | (c) "1 < N" "s_zero E (dbl (Fin x))"
    | (d) "1 < N" "\<not> s_zero E (dbl (Fin x))" "1 / 2 - real N < x"
    | (e) "1 < N" "\<not> s_zero E (dbl (Fin x))" "\<not> 1 / 2 - real N < x"
    by linarith
  then show ?thesis
  proof cases
    case a
    then show ?thesis by (simp add: pochhammer_disp_def)
  next
    case b
    then show ?thesis by (simp add: pochhammer_disp_def)
  next
    case c
    then have "x = 0" using zero dbl_Fin_zero by blast
    moreover have "(\<Prod>k<N. (0 :: real) + real k) = 0"
      using c(1) by (intro prod_zero) auto
    moreover have "pochhammer_disp E x N = 0"
      using c by (simp add: pochhammer_disp_def del: dbl.simps)
    ultimately show ?thesis by simp
  next
    case d
    then show ?thesis by (simp add: pochhammer_disp_def aux del: dbl.simps)
  next
    case e
    have "1 < real N" using e(1) by simp
    with e(3) have "x < 0" by linarith
    then have neg: "\<bar>x\<bar> = - x" by simp
    have "pochhammer_disp E x N =
          (\<Prod>k<N. - x - real N + 1 + real k) * (if odd N then - 1 else 1)"
      using e by (simp add: pochhammer_disp_def aux neg del: dbl.simps)
    then show ?thesis by (simp only: prod_reflect)
  qed
qed

text \<open>
  With closed forms that are the rising-factorial products and a zero predicate that holds
  of zero only, the recursion (reflection for \<open>x < 0.5 - N\<close>, halving otherwise) returns the
  product \<open>x (x + 1) \<dots> (x + N - 1)\<close> for every real \<open>x\<close> and every \<open>N \<le> 96\<close>; the result
  is narrowed to \<^verbatim>\<open>double\<close> on return.
\<close>

lemma pochhammer_product:
  assumes "\<And>n y. 2 \<le> n \<Longrightarrow> n \<le> 16 \<Longrightarrow> Pochhammer_evaluate E n y = (\<Prod>k<n. y + real k)"
    and "\<And>y. s_zero E y \<Longrightarrow> y = Fin 0"
    and "N \<le> 96"
  shows "pochhammer E x N = dbl (Fin (\<Prod>k<N. x + real k))"
  using pochhammer_disp_product [OF assms] by (simp only: pochhammer_def)

text \<open>
  Beyond \<open>N = 96\<close> and off the integers the function returns
  \<^verbatim>\<open>std::exp ( std::lgamma ( x + N ) - std::lgamma ( x ) )\<close>, which is positive whatever
  \<^verbatim>\<open>lgamma\<close> returns.
\<close>

lemma quarter_not_near_integer: "\<not> \<bar>- (1 / 4) - real_of_int m\<bar> < 1 / 10 ^ 8"
proof (cases "m \<le> - 1")
  case True
  then have "real_of_int m \<le> - 1" by linarith
  then show ?thesis by (simp add: abs_if)
next
  case False
  then have "0 \<le> real_of_int m" by simp
  then show ?thesis by (simp add: abs_if)
qed

lemma pochhammer_aux_generic_97:
  assumes "\<not> s_zero E (Fin (- (1 / 4)))"
  shows "pochhammer_aux E (- (1 / 4)) 97 = exp (lgamma E (- (1 / 4) + 97) - lgamma E (- (1 / 4)))"
proof -
  have d: "dbl (Fin (- (1 / 4))) = Fin (- (1 / 4))"
    using DBL_OVERFLOW_gt by (intro dbl_Fin_id) simp_all
  show ?thesis
    using assms quarter_not_near_integer
    by (subst pochhammer_aux.simps) (simp add: d Let_def del: dbl.simps)
qed

lemma rising_product_negative: "(\<Prod>k<97. - (1 / 4) + real k) < 0"
proof -
  have "(\<Prod>k<Suc 96. - (1 / 4) + real k) =
        (- (1 / 4) + real 0) * (\<Prod>k<96. - (1 / 4) + real (Suc k))"
    by (rule prod.lessThan_Suc_shift)
  moreover have "0 < (\<Prod>k<96. - (1 / 4) + real (Suc k))"
    by (intro prod_pos) auto
  ultimately have "(\<Prod>k<Suc 96. - (1 / 4) + real k) < 0"
    by (simp add: mult_neg_pos)
  then show ?thesis by (simp only: eval_nat_numeral)
qed

text \<open>
  C1. \<open>pochhammer x N\<close> and \<open>rising_factorial x N\<close> should equal the product
  \<open>x (x + 1) \<dots> (x + N - 1)\<close>. At \<open>x = -0.25\<close>, \<open>N = 97\<close> the product has exactly one negative
  factor and is negative, while the function takes the \<^verbatim>\<open>lgamma\<close> fallback and returns a
  positive value.
\<close>

theorem pochhammer_sign_lost:
  assumes "\<not> s_zero E (Fin (- (1 / 4)))"
  shows "Fin 0 < pochhammer E (- (1 / 4)) 97 \<and> Fin 0 < rising_factorial E (- (1 / 4)) 97 \<and>
         (\<Prod>k<97. - (1 / 4) + real k) < 0"
proof -
  have d: "dbl (Fin (- (1 / 4))) = Fin (- (1 / 4))"
    using DBL_OVERFLOW_gt by (intro dbl_Fin_id) simp_all
  have "pochhammer_disp E (- (1 / 4)) 97 = exp (lgamma E (- (1 / 4) + 97) - lgamma E (- (1 / 4)))"
    using assms by (simp add: pochhammer_disp_def d pochhammer_aux_generic_97 del: dbl.simps)
  moreover have "Fin 0 < dbl (Fin (exp y))" for y
  proof -
    have "- DBL_OVERFLOW < exp y"
      using DBL_OVERFLOW_gt exp_gt_zero [of y] by linarith
    then show ?thesis by (simp add: not_le)
  qed
  ultimately show ?thesis
    using rising_product_negative by (simp add: pochhammer_def rising_factorial_def del: dbl.simps)
qed

theorem pochhammer_sign_lost_witness:
  "\<not> s_zero sample_lib (Fin (- (1 / 4))) \<and> Fin 0 < pochhammer sample_lib (- (1 / 4)) 97"
proof -
  have h: "\<not> s_zero sample_lib (Fin (- (1 / 4)))" by (simp add: sample_lib_def)
  from pochhammer_sign_lost [OF h] h show ?thesis by blast
qed

end
